theory Spec2Isabelle
  imports Main "HOL-Library.Word"
begin

unbundle bit_operations_syntax

section \<open>Machine integers and bytes\<close>

text \<open>
  Go's \<open>int64\<close> and \<open>uint64\<close> are 64-bit words: \<open>+\<close>, \<open>-\<close> and \<open>*\<close> wrap around,
  \<open>sint\<close> reads a word as two's complement, \<open>unat\<close> as unsigned. The conversions
  \<open>uint64(i)\<close> and \<open>int64(u)\<close> keep the bits, so both types are the same word type here.
  A Go \<open>string\<close> or \<open>[]byte\<close> is a list of bytes, which is what \<open>string\<close> is in HOL.
\<close>

type_synonym int64 = "64 word"
type_synonym uint64 = "64 word"

section \<open>Package time: the part of \<open>time.Time\<close> the store uses\<close>

text \<open>
  \<open>type Time struct { wall uint64; ext int64; loc *Location }\<close>. The zero value
  \<open>time.Time{}\<close> has all three fields zero (\<open>loc = nil\<close>); \<open>time.Unix\<close> sets
  \<open>loc\<close> to \<open>Local\<close>.
\<close>

datatype Location = NilLocation | Local

record Time =
  wall :: uint64
  ext :: int64
  loc :: Location

definition zeroTime :: Time where
  "zeroTime = \<lparr>wall = 0, ext = 0, loc = NilLocation\<rparr>"

text \<open>
  \<open>unixToInternal = (1969*365 + 1969/4 - 1969/100 + 1969/400) * secondsPerDay\<close>,
  \<open>wallToInternal = (1884*365 + 1884/4 - 1884/100 + 1884/400) * secondsPerDay\<close>,
  \<open>internalToUnix = -unixToInternal\<close>; Go's \<open>/\<close> on these positive constants is \<open>div\<close>.
\<close>

definition secondsPerDay :: int64 where
  "secondsPerDay = 86400"

definition unixToInternal :: int64 where
  "unixToInternal = (1969 * 365 + 1969 div 4 - 1969 div 100 + 1969 div 400) * secondsPerDay"

definition internalToUnix :: int64 where
  "internalToUnix = - unixToInternal"

definition wallToInternal :: int64 where
  "wallToInternal = (1884 * 365 + 1884 div 4 - 1884 div 100 + 1884 div 400) * secondsPerDay"

definition hasMonotonic :: uint64 where
  "hasMonotonic = push_bit 63 1"

definition nsecMask :: uint64 where
  "nsecMask = push_bit 30 1 - 1"

definition nsecShift :: nat where
  "nsecShift = 30"

text \<open>\<open>unixTime(sec, nsec) = Time{uint64(nsec), sec + unixToInternal, Local}\<close>; the sum wraps.\<close>

definition unixTime :: "int64 \<Rightarrow> 32 word \<Rightarrow> Time" where
  "unixTime sec nsec = \<lparr>wall = ucast nsec, ext = sec + unixToInternal, loc = Local\<rparr>"

text \<open>
  \<open>time.Unix(sec, nsec)\<close> normalises \<open>nsec\<close> only when it is outside \<open>[0, 1e9)\<close>. The
  one call of the program is \<open>time.Unix(timestamp, 0)\<close>, so \<open>Unix\<close> below is that call:
  the normalising branch is not taken and the result is \<open>unixTime(sec, 0)\<close>.
\<close>

definition Unix :: "int64 \<Rightarrow> Time" where
  "Unix sec = unixTime sec 0"

text \<open>
  \<open>func (t *Time) nsec() int32 { return int32(t.wall & nsecMask) }\<close>

  \<open>func (t *Time) sec() int64 { if t.wall&hasMonotonic != 0 { return wallToInternal +
  int64(t.wall<<1>>(nsecShift+1)) }; return t.ext }\<close>

  \<open>func (t Time) IsZero() bool { return t.sec() == 0 && t.nsec() == 0 }\<close>

  \<open>func (t Time) Unix() int64 { return t.sec() + internalToUnix }\<close>

  (Later releases write \<open>IsZero\<close> as \<open>t.wall == 0 && t.ext == 0\<close>, which is the same on
  every time \<open>time.Unix(sec, 0)\<close> builds and on \<open>time.Time{}\<close>: their \<open>wall\<close> is 0.)
\<close>

definition nsec :: "Time \<Rightarrow> 32 word" where
  "nsec t = ucast (wall t AND nsecMask)"

definition sec :: "Time \<Rightarrow> int64" where
  "sec t = (if wall t AND hasMonotonic \<noteq> 0
            then wallToInternal + drop_bit (nsecShift + 1) (push_bit 1 (wall t))
            else ext t)"

definition IsZero :: "Time \<Rightarrow> bool" where
  "IsZero t = (sec t = 0 \<and> nsec t = 0)"

definition Time_Unix :: "Time \<Rightarrow> int64" where
  "Time_Unix t = sec t + internalToUnix"

section \<open>Package strconv: \<open>FormatInt\<close> and \<open>ParseInt\<close>\<close>

datatype NumError = ErrSyntax | ErrRange | ErrBase | ErrBitSize

text \<open>
  \<open>strconv.IntSize\<close> is the size of an \<open>int\<close>, which \<open>bitSize = 0\<close> stands for: 64 bits
  on the 64-bit platforms this model is about.
\<close>

definition IntSize :: nat where
  "IntSize = 64"

text \<open>
  \<open>formatBits\<close> at base 10 writes the decimal digits of \<open>u\<close>, most significant first,
  with no leading zero, and \<open>0\<close> for zero. A digit \<open>d\<close> is written as \<open>digits[d]\<close>, with
  \<open>const digits = "0123456789abcdefghijklmnopqrstuvwxyz"\<close>; at base 10 the index is below 10.
\<close>

definition digits :: string where
  "digits = ''0123456789abcdefghijklmnopqrstuvwxyz''"

definition digitChar :: "nat \<Rightarrow> char" where
  "digitChar d = digits ! d"

function formatBits :: "nat \<Rightarrow> string" where
  "formatBits u = (if u < 10 then [digitChar u] else formatBits (u div 10) @ [digitChar (u mod 10)])"
  by pat_completeness auto
termination
  by (relation "measure id") auto

declare formatBits.simps [simp del]

text \<open>
  \<open>FormatInt(i, 10)\<close>: for \<open>i < 0\<close> the digits of \<open>-uint64(i)\<close> (which is \<open>2^63\<close> for
  the least \<open>int64\<close>) after a minus sign. \<open>fmt.Fprint\<close> of an \<open>int64\<close> writes the same text.
\<close>

definition FormatInt :: "int64 \<Rightarrow> string" where
  "FormatInt i = (if i <s 0 then CHR ''-'' # formatBits (unat (- i)) else formatBits (unat i))"

text \<open>
  \<open>ParseUint(s, base, bitSize)\<close> for a base in \<open>2..36\<close> (base 0, which reads a prefix,
  is not used by the program). The loop over the bytes of \<open>s\<close>:

  \<^verbatim>\<open>
  switch {
  case '0' <= c && c <= '9':             d = c - '0'
  case 'a' <= lower(c) && lower(c) <= 'z': d = lower(c) - 'a' + 10
  default:                               return 0, syntaxError
  }
  if d >= byte(base) { return 0, syntaxError }
  if n >= cutoff     { return maxVal, rangeError }
  n *= uint64(base)
  n1 := n + uint64(d)
  if n1 < n || n1 > maxVal { return maxVal, rangeError }
  n = n1
  \<close>

  with \<open>cutoff = maxUint64/base + 1\<close>, \<open>maxVal = 1<<bitSize - 1\<close> and
  \<open>lower(c) = c | ('x' - 'X')\<close>. The functions return the pair (value, error) as Go does.
\<close>

definition lower :: "nat \<Rightarrow> nat" where
  "lower c = c OR 32"

definition digitVal :: "char \<Rightarrow> nat option" where
  "digitVal c = (let b = (of_char c :: nat) in
     if 48 \<le> b \<and> b \<le> 57 then Some (b - 48)
     else if 97 \<le> lower b \<and> lower b \<le> 122 then Some (lower b - 97 + 10)
     else None)"

fun parseUintLoop :: "nat \<Rightarrow> uint64 \<Rightarrow> uint64 \<Rightarrow> uint64 \<Rightarrow> string \<Rightarrow> uint64 \<times> NumError option" where
  "parseUintLoop base cutoff maxVal n [] = (n, None)"
| "parseUintLoop base cutoff maxVal n (c # cs) =
     (case digitVal c of
        None \<Rightarrow> (0, Some ErrSyntax)
      | Some d \<Rightarrow>
          if d \<ge> base then (0, Some ErrSyntax)
          else if n \<ge> cutoff then (maxVal, Some ErrRange)
          else let n' = n * of_nat base; n1 = n' + of_nat d in
            if n1 < n' \<or> n1 > maxVal then (maxVal, Some ErrRange)
            else parseUintLoop base cutoff maxVal n1 cs)"

text \<open>\<open>const maxUint64 = 1<<64 - 1\<close>\<close>

definition maxUint64 :: uint64 where
  "maxUint64 = 18446744073709551615"

definition ParseUint :: "string \<Rightarrow> nat \<Rightarrow> nat \<Rightarrow> uint64 \<times> NumError option" where
  "ParseUint s base bitSize =
     (if s = [] then (0, Some ErrSyntax)
      else if \<not> (2 \<le> base \<and> base \<le> 36) then (0, Some ErrBase)
      else let bitSize' = (if bitSize = 0 then IntSize else bitSize) in
        if bitSize' > 64 then (0, Some ErrBitSize)
        else parseUintLoop base (maxUint64 div of_nat base + 1) (push_bit bitSize' 1 - 1) 0 s)"

text \<open>
  \<^verbatim>\<open>
  func ParseInt(s string, base int, bitSize int) (i int64, err error) {
      if s == "" { return 0, syntaxError }
      neg := false
      if s[0] == '+' { s = s[1:] } else if s[0] == '-' { neg = true; s = s[1:] }
      un, err = ParseUint(s, base, bitSize)
      if err != nil && err.(*NumError).Err != ErrRange { return 0, err }
      if bitSize == 0 { bitSize = IntSize }
      cutoff := uint64(1 << uint(bitSize-1))
      if !neg && un >= cutoff { return int64(cutoff - 1), rangeError }
      if neg && un > cutoff   { return -int64(cutoff), rangeError }
      n := int64(un)
      if neg { n = -n }
      return n, nil
  }
  \<close>
\<close>

definition ParseInt :: "string \<Rightarrow> nat \<Rightarrow> nat \<Rightarrow> int64 \<times> NumError option" where
  "ParseInt s base bitSize =
     (case s of
        [] \<Rightarrow> (0, Some ErrSyntax)
      | c # cs \<Rightarrow>
          let neg = (c = CHR ''-'');
              s' = (if c = CHR ''+'' \<or> c = CHR ''-'' then cs else s);
              (un, err) = ParseUint s' base bitSize
          in if err \<noteq> None \<and> err \<noteq> Some ErrRange then (0, err)
             else let bitSize' = (if bitSize = 0 then IntSize else bitSize);
                      cutoff = (push_bit (bitSize' - 1) 1 :: uint64)
               in if \<not> neg \<and> un \<ge> cutoff then (cutoff - 1, Some ErrRange)
                  else if neg \<and> un > cutoff then (- cutoff, Some ErrRange)
                  else (if neg then - un else un, None))"

section \<open>The timestamp store\<close>

text \<open>
  \<open>type TimestampStore interface { GetTimestamp() int64; StoreTimestamp(timestamp int64) }\<close>:
  an implementation is a pair of operations on its own state \<open>'s\<close>.
\<close>

record 's TimestampStore =
  GetTimestamp :: "'s \<Rightarrow> int64"
  StoreTimestamp :: "int64 \<Rightarrow> 's \<Rightarrow> 's"

text \<open>
  \<open>InMemoryTimestampStore\<close> holds an \<open>atomic.Value\<close> in which only \<open>time.Time\<close> values are
  ever stored (by the constructor and by \<open>StoreTimestamp\<close>), so its state is a \<open>Time\<close> and
  the type assertion \<open>t.(time.Time)\<close> of \<open>GetTimestamp\<close> succeeds. Each \<open>Load\<close> and \<open>Store\<close>
  is one atomic step; the model runs the operations one after the other.
\<close>

definition NewInMemoryTimestampStore :: Time where
  "NewInMemoryTimestampStore = zeroTime"

definition InMemory_GetTimestamp :: "Time \<Rightarrow> int64" where
  "InMemory_GetTimestamp timestamp = (if IsZero timestamp then 0 else Time_Unix timestamp)"

definition InMemory_StoreTimestamp :: "int64 \<Rightarrow> Time \<Rightarrow> Time" where
  "InMemory_StoreTimestamp timestamp i = Unix timestamp"

definition InMemoryTimestampStore :: "Time TimestampStore" where
  "InMemoryTimestampStore =
     \<lparr>GetTimestamp = InMemory_GetTimestamp, StoreTimestamp = InMemory_StoreTimestamp\<rparr>"

text \<open>The test double \<open>StubTimestampStore\<close>, which also records every call of \<open>StoreTimestamp\<close>.\<close>

record StubState =
  stub_timestamp :: Time
  storeCalls :: "int64 list"

definition Stub_GetTimestamp :: "StubState \<Rightarrow> int64" where
  "Stub_GetTimestamp s = (if IsZero (stub_timestamp s) then 0 else Time_Unix (stub_timestamp s))"

definition Stub_StoreTimestamp :: "int64 \<Rightarrow> StubState \<Rightarrow> StubState" where
  "Stub_StoreTimestamp t s = s\<lparr>stub_timestamp := Unix t, storeCalls := storeCalls s @ [t]\<rparr>"

definition StubTimestampStore :: "StubState TimestampStore" where
  "StubTimestampStore =
     \<lparr>GetTimestamp = Stub_GetTimestamp, StoreTimestamp = Stub_StoreTimestamp\<rparr>"

section \<open>The bootstrap client\<close>

text \<open>
  \<open>fmt.Fprintln(out, s)\<close> appends \<open>s\<close> and a newline to the sink; the sink is the text
  written to it so far. \<open>Run\<close> takes the store's state and the sink and returns both.
\<close>

definition newline :: char where
  "newline = CHR 0x0A"

definition Fprintln :: "string \<Rightarrow> string \<Rightarrow> string" where
  "Fprintln out s = out @ s @ [newline]"

definition Run :: "'s TimestampStore \<Rightarrow> int64 \<Rightarrow> 's \<times> string \<Rightarrow> 's \<times> string" where
  "Run store t c =
     (let s1 = StoreTimestamp store t (fst c);
          storedTimestamp = GetTimestamp store s1;
          storedTimestampStr = FormatInt storedTimestamp
      in (s1, Fprintln (snd c) storedTimestampStr))"

section \<open>Package net/http: requests, the response writer, the router\<close>

definition StatusOK :: nat where
  "StatusOK = 200"

definition StatusAccepted :: nat where
  "StatusAccepted = 202"

definition StatusBadRequest :: nat where
  "StatusBadRequest = 400"

definition StatusNotFound :: nat where
  "StatusNotFound = 404"

text \<open>
  A request body is an \<open>io.ReadCloser\<close>; \<open>io.ReadAll\<close> returns the bytes it delivers and
  the error the read ended with, if any. \<open>r.Body\<close> is \<open>nil\<close> for a request built without
  a body (\<open>http.NewRequest(method, url, nil)\<close>).
\<close>

datatype IOError = ReadError

datatype ReadCloser = ReadCloser (content: string) (readErr: "IOError option")

definition ReadAll :: "ReadCloser \<Rightarrow> string \<times> IOError option" where
  "ReadAll b = (content b, readErr b)"

record Request =
  Method :: string
  URLPath :: string
  Body :: "ReadCloser option"

text \<open>
  The \<open>http.ResponseWriter\<close> a handler writes to. \<open>Header()\<close> is the handler's header map
  (the program only uses canonical keys). \<open>WriteHeader(code)\<close> fixes the status and the
  headers that are sent; a second call is ignored. \<open>Write\<close> sends status 200 first when
  no status was sent, then appends to the body; \<open>fmt.Fprint(w, x)\<close> is \<open>Write\<close> of the text
  of \<open>x\<close>. (A \<open>Write\<close> with no Content-Type set would have the type sniffed from the data;
  every \<open>Write\<close> of this program comes after Content-Type is set, and the model does not
  sniff.) When the handler returns without having sent a status, the server sends 200.
  \<open>written\<close> is what the handler wrote.
\<close>

record ResponseWriter =
  Header :: "string \<rightharpoonup> string"
  wroteHeader :: bool
  status :: nat
  sentHeader :: "string \<rightharpoonup> string"
  written :: string

definition NewResponseWriter :: ResponseWriter where
  "NewResponseWriter =
     \<lparr>Header = Map.empty, wroteHeader = False, status = StatusOK, sentHeader = Map.empty, written = []\<rparr>"

definition Header_Set :: "string \<Rightarrow> string \<Rightarrow> ResponseWriter \<Rightarrow> ResponseWriter" where
  "Header_Set k v w = w\<lparr>Header := (Header w)(k \<mapsto> v)\<rparr>"

definition Header_Del :: "string \<Rightarrow> ResponseWriter \<Rightarrow> ResponseWriter" where
  "Header_Del k w = w\<lparr>Header := (Header w)(k := None)\<rparr>"

definition WriteHeader :: "nat \<Rightarrow> ResponseWriter \<Rightarrow> ResponseWriter" where
  "WriteHeader code w =
     (if wroteHeader w then w
      else w\<lparr>wroteHeader := True, status := code, sentHeader := Header w\<rparr>)"

definition Write :: "string \<Rightarrow> ResponseWriter \<Rightarrow> ResponseWriter" where
  "Write data w = (let w' = WriteHeader StatusOK w in w'\<lparr>written := written w' @ data\<rparr>)"

definition finishRequest :: "ResponseWriter \<Rightarrow> ResponseWriter" where
  "finishRequest w = WriteHeader StatusOK w"

text \<open>What the client receives.\<close>

record Response =
  StatusCode :: nat
  RespHeader :: "string \<rightharpoonup> string"
  RespBody :: string

definition Result :: "ResponseWriter \<Rightarrow> Response" where
  "Result w = \<lparr>StatusCode = status w, RespHeader = sentHeader w, RespBody = written w\<rparr>"

text \<open>
  \<^verbatim>\<open>
  func Error(w ResponseWriter, error string, code int) {
      h := w.Header()
      h.Del("Content-Length")
      h.Set("Content-Type", "text/plain; charset=utf-8")
      h.Set("X-Content-Type-Options", "nosniff")
      w.WriteHeader(code)
      fmt.Fprintln(w, error)
  }
  \<close>
\<close>

definition Error :: "ResponseWriter \<Rightarrow> string \<Rightarrow> nat \<Rightarrow> ResponseWriter" where
  "Error w error code =
     (let w1 = Header_Del ''Content-Length'' w;
          w2 = Header_Set ''Content-Type'' ''text/plain; charset=utf-8'' w1;
          w3 = Header_Set ''X-Content-Type-Options'' ''nosniff'' w2;
          w4 = WriteHeader code w3
      in Write (error @ [newline]) w4)"

definition NotFound :: "ResponseWriter \<Rightarrow> ResponseWriter" where
  "NotFound w = Error w ''404 page not found'' StatusNotFound"

text \<open>
  A handler gets the response writer, the request and the state of the store, and returns
  the response writer and the store as it leaves them.
\<close>

type_synonym 's HandlerFunc = "ResponseWriter \<Rightarrow> Request \<Rightarrow> 's \<Rightarrow> ResponseWriter \<times> 's"

text \<open>
  \<open>http.ServeMux\<close> with the patterns of Go 1.22: a pattern is \<open>[METHOD ]PATH\<close> (the
  program's patterns name no host). A path that ends in \<open>/\<close> matches every path it is
  a prefix of, any other path matches only itself. \<open>matchMethodAndPath\<close> first tries the
  patterns with the request's method, then for \<open>HEAD\<close> the patterns with \<open>GET\<close>, then the
  patterns with no method; among the patterns of one method an exact match comes before a
  prefix match and a longer prefix before a shorter one. When nothing matches the router
  answers with \<open>http.NotFound\<close>.

  Before it matches, the router cleans the path of every request but a \<open>CONNECT\<close>
  (\<open>cleanPath\<close> below). When the cleaned path is not the path of the request,
  \<open>findHandler\<close> returns a redirect to the cleaned path in place of a handler: no
  handler of the program runs and the store is not touched.
  \<open>ServeHTTP\<close> below is the dispatch of a request whose path is clean, that is
  \<open>cleanPath (URLPath r) = URLPath r\<close>; the redirect itself is not modelled, and every
  statement about \<open>ServeHTTP\<close> is about a request with a clean path. \<open>URLPath\<close> is
  \<open>r.URL.Path\<close>; the paths considered have no percent-escapes, so it is also the escaped
  path the router looks at.
\<close>

text \<open>
  \<open>path.Clean\<close> on a rooted path, the only kind \<open>cleanPath\<close> passes to it: split the
  path at the slashes; drop the empty elements and the \<open>.\<close> elements; a \<open>..\<close> element
  removes the element before it, and is dropped at the root; join what is left with
  single slashes after the leading slash.
\<close>

fun elements :: "string \<Rightarrow> string list" where
  "elements [] = [[]]"
| "elements (c # cs) =
     (if c = CHR ''/'' then [] # elements cs
      else (case elements cs of e # es \<Rightarrow> (c # e) # es | [] \<Rightarrow> [[c]]))"

fun cleanElements :: "string list \<Rightarrow> string list \<Rightarrow> string list" where
  "cleanElements out [] = out"
| "cleanElements out (e # es) =
     (if e = [] \<or> e = ''.'' then cleanElements out es
      else if e = ''..'' then cleanElements (butlast out) es
      else cleanElements (out @ [e]) es)"

fun joinElements :: "string list \<Rightarrow> string" where
  "joinElements [] = []"
| "joinElements [e] = e"
| "joinElements (e # es) = e @ CHR ''/'' # joinElements es"

definition Clean :: "string \<Rightarrow> string" where
  "Clean p = CHR ''/'' # joinElements (cleanElements [] (elements (tl p)))"

text \<open>
  \<^verbatim>\<open>
  func cleanPath(p string) string {
      if p == "" { return "/" }
      if p[0] != '/' { p = "/" + p }
      np := path.Clean(p)
      // path.Clean removes trailing slash except for root;
      // put the trailing slash back if necessary.
      if p[len(p)-1] == '/' && np != "/" {
          if len(p) == len(np)+1 && strings.HasPrefix(p, np) { np = p } else { np += "/" }
      }
      return np
  }
  \<close>
\<close>

definition cleanPath :: "string \<Rightarrow> string" where
  "cleanPath p =
     (if p = [] then ''/''
      else let p' = (if hd p \<noteq> CHR ''/'' then CHR ''/'' # p else p);
               np = Clean p'
        in if last p' = CHR ''/'' \<and> np \<noteq> ''/''
           then (if length p' = length np + 1 \<and> take (length np) p' = np then p'
                 else np @ ''/'')
           else np)"

record pattern =
  pat_method :: string
  pat_path :: string

definition isBlank :: "char \<Rightarrow> bool" where
  "isBlank c = (c = CHR '' '' \<or> c = CHR 0x09)"

definition parsePattern :: "string \<Rightarrow> pattern" where
  "parsePattern s =
     (if \<exists>c \<in> set s. isBlank c
      then \<lparr>pat_method = takeWhile (\<lambda>c. \<not> isBlank c) s,
            pat_path = dropWhile isBlank (dropWhile (\<lambda>c. \<not> isBlank c) s)\<rparr>
      else \<lparr>pat_method = [], pat_path = s\<rparr>)"

type_synonym 's ServeMux = "(pattern \<times> 's HandlerFunc) list"

definition HandleFunc :: "string \<Rightarrow> 's HandlerFunc \<Rightarrow> 's ServeMux \<Rightarrow> 's ServeMux" where
  "HandleFunc pat h mux = mux @ [(parsePattern pat, h)]"

definition isPrefixPattern :: "pattern \<Rightarrow> bool" where
  "isPrefixPattern p = (pat_path p \<noteq> [] \<and> last (pat_path p) = CHR ''/'')"

fun longest :: "(pattern \<times> 'h) list \<Rightarrow> (pattern \<times> 'h) option" where
  "longest [] = None"
| "longest (x # xs) =
     (case longest xs of
        None \<Rightarrow> Some x
      | Some y \<Rightarrow> if length (pat_path (fst y)) > length (pat_path (fst x)) then Some y else Some x)"

definition matchPath :: "(pattern \<times> 'h) list \<Rightarrow> string \<Rightarrow> (pattern \<times> 'h) option" where
  "matchPath regs path =
     (case filter (\<lambda>x. \<not> isPrefixPattern (fst x) \<and> pat_path (fst x) = path) regs of
        x # _ \<Rightarrow> Some x
      | [] \<Rightarrow> longest (filter (\<lambda>x. isPrefixPattern (fst x) \<and>
                 take (length (pat_path (fst x))) path = pat_path (fst x)) regs))"

definition matchMethodAndPath :: "(pattern \<times> 'h) list \<Rightarrow> string \<Rightarrow> string \<Rightarrow> (pattern \<times> 'h) option" where
  "matchMethodAndPath regs method path =
     (case matchPath (filter (\<lambda>x. pat_method (fst x) = method) regs) path of
        Some x \<Rightarrow> Some x
      | None \<Rightarrow>
          (case (if method = ''HEAD''
                 then matchPath (filter (\<lambda>x. pat_method (fst x) = ''GET'') regs) path
                 else None) of
             Some x \<Rightarrow> Some x
           | None \<Rightarrow> matchPath (filter (\<lambda>x. pat_method (fst x) = []) regs) path))"

definition ServeHTTP :: "'s ServeMux \<Rightarrow> 's HandlerFunc" where
  "ServeHTTP mux w r s =
     (case matchMethodAndPath mux (Method r) (URLPath r) of
        Some (p, h) \<Rightarrow> h w r s
      | None \<Rightarrow> (NotFound w, s))"

text \<open>
  One request served by \<open>http.ListenAndServe(port, server)\<close>: the handler runs on a fresh
  response writer and the response is what the server sends once the request is
  finished. The body of the response to a \<open>HEAD\<close> request is not sent: the server takes
  the handler's writes and sends the status and the headers only.
\<close>

definition serve :: "'s ServeMux \<Rightarrow> Request \<Rightarrow> 's \<Rightarrow> Response \<times> 's" where
  "serve mux r s =
     (let (w, s') = ServeHTTP mux NewResponseWriter r s;
          resp = Result (finishRequest w)
      in (if Method r = ''HEAD'' then resp\<lparr>RespBody := []\<rparr> else resp, s'))"

section \<open>The timestamp server\<close>

definition notFoundMessage :: string where
  "notFoundMessage = ''404 - Page not found''"

definition contentTypeTextPlain :: string where
  "contentTypeTextPlain = ''text/plain''"

definition getTimestamp :: "'s TimestampStore \<Rightarrow> 's HandlerFunc" where
  "getTimestamp store w r s =
     (let w1 = Header_Set ''Content-Type'' contentTypeTextPlain w;
          timestamp = GetTimestamp store s;
          w2 = (if timestamp = 0 then WriteHeader StatusNotFound w1 else w1)
      in (Write (FormatInt timestamp) w2, s))"

definition storeTimestamp :: "'s TimestampStore \<Rightarrow> 's HandlerFunc" where
  "storeTimestamp store w r s =
     (case Body r of
        None \<Rightarrow> (w, s)
      | Some b \<Rightarrow>
          (case ReadAll b of
             (bodyBytes, Some err) \<Rightarrow> (Error w ''Invalid request body'' StatusBadRequest, s)
           | (bodyBytes, None) \<Rightarrow>
               (case ParseInt bodyBytes 10 0 of
                  (timestamp, Some err) \<Rightarrow> (Error w ''Invalid request body'' StatusBadRequest, s)
                | (timestamp, None) \<Rightarrow>
                    (WriteHeader StatusAccepted w, StoreTimestamp store timestamp s))))"

definition notFoundHandler :: "'s TimestampStore \<Rightarrow> 's HandlerFunc" where
  "notFoundHandler store w r s =
     (let w1 = Header_Set ''Content-Type'' contentTypeTextPlain w;
          w2 = WriteHeader StatusNotFound w1
      in (Write notFoundMessage w2, s))"

definition NewTimestampServer :: "'s TimestampStore \<Rightarrow> 's ServeMux" where
  "NewTimestampServer store =
     HandleFunc ''POST /timestamp'' (storeTimestamp store)
       (HandleFunc ''GET /timestamp'' (getTimestamp store)
         (HandleFunc ''/'' (notFoundHandler store) []))"

text \<open>
  The requests the tests build: \<open>http.NewRequest(http.MethodGet, "/timestamp", nil)\<close> and
  \<open>http.NewRequest(http.MethodPost, "/timestamp", bytes.NewBuffer([]byte(timestampStr)))\<close>
  with \<open>timestampStr = strconv.FormatInt(timestamp, 10)\<close>; a \<open>bytes.Buffer\<close> is read
  without error.
\<close>

definition newGetTimestampRequest :: Request where
  "newGetTimestampRequest = \<lparr>Method = ''GET'', URLPath = ''/timestamp'', Body = None\<rparr>"

definition newPostTimestampRequest :: "int64 \<Rightarrow> Request" where
  "newPostTimestampRequest t =
     \<lparr>Method = ''POST'', URLPath = ''/timestamp'', Body = Some (ReadCloser (FormatInt t) None)\<rparr>"

text \<open>
  A \<open>POST /timestamp\<close> with any bytes as its body:
  \<open>http.NewRequest(http.MethodPost, "/timestamp", bytes.NewBuffer(body))\<close>.
\<close>

definition postRequest :: "string \<Rightarrow> Request" where
  "postRequest body =
     \<lparr>Method = ''POST'', URLPath = ''/timestamp'', Body = Some (ReadCloser body None)\<rparr>"

text \<open>A path that begins with a slash, as every path the router dispatches does.\<close>

definition rooted :: "string \<Rightarrow> bool" where
  "rooted p = (case p of [] \<Rightarrow> False | c # _ \<Rightarrow> c = CHR ''/'')"

text \<open>The response \<open>http.Error(w, "Invalid request body", http.StatusBadRequest)\<close> produces.\<close>

definition badRequest :: Response where
  "badRequest =
     \<lparr>StatusCode = 400,
      RespHeader = [''Content-Type'' \<mapsto> ''text/plain; charset=utf-8'',
                    ''X-Content-Type-Options'' \<mapsto> ''nosniff''],
      RespBody = ''Invalid request body'' @ [newline]\<rparr>"

section \<open>Unfolding the definitions\<close>

lemmas writer_defs = Header_Set_def Header_Del_def WriteHeader_def Write_def finishRequest_def
  Result_def NewResponseWriter_def Error_def NotFound_def
  StatusOK_def StatusAccepted_def StatusBadRequest_def StatusNotFound_def

lemmas time_defs = InMemoryTimestampStore_def InMemory_GetTimestamp_def InMemory_StoreTimestamp_def
  Unix_def unixTime_def IsZero_def sec_def nsec_def Time_Unix_def unixToInternal_def internalToUnix_def
  secondsPerDay_def hasMonotonic_def nsecMask_def zeroTime_def NewInMemoryTimestampStore_def

lemmas stub_defs = StubTimestampStore_def Stub_GetTimestamp_def Stub_StoreTimestamp_def

lemmas parse_defs = ParseInt_def ParseUint_def digitVal_def lower_def IntSize_def maxUint64_def
  word_le_nat_alt word_less_nat_alt

lemmas format_defs = FormatInt_def formatBits.simps digitChar_def digits_def word_sless_alt

lemmas request_defs = newGetTimestampRequest_def newPostTimestampRequest_def postRequest_def

section \<open>The store: the zero time is the only value that does not come back\<close>

lemma Unix_IsZero_iff: "IsZero (Unix v) \<longleftrightarrow> v = - 62135596800"
proof -
  have "IsZero (Unix v) \<longleftrightarrow> v + 62135596800 = 0"
    by (simp add: time_defs)
  also have "\<dots> \<longleftrightarrow> v = - 62135596800"
    by (simp add: add_eq_0_iff2)
  finally show ?thesis .
qed

lemma Time_Unix_Unix: "Time_Unix (Unix v) = v"
  by (simp add: time_defs)

lemma InMemory_round_trip:
  "GetTimestamp InMemoryTimestampStore (StoreTimestamp InMemoryTimestampStore v s) =
     (if v = - 62135596800 then 0 else v)"
  by (simp add: InMemoryTimestampStore_def InMemory_GetTimestamp_def InMemory_StoreTimestamp_def
      Unix_IsZero_iff Time_Unix_Unix)

section \<open>\<open>ParseInt\<close> reads back what \<open>FormatInt\<close> writes\<close>

lemma digit_cases:
  assumes "d < (10 :: nat)"
  shows "d = 0 \<or> d = 1 \<or> d = 2 \<or> d = 3 \<or> d = 4 \<or> d = 5 \<or> d = 6 \<or> d = 7 \<or> d = 8 \<or> d = 9"
  using assms by presburger

lemma digitVal_digitChar:
  assumes "d < 10"
  shows "digitVal (digitChar d) = Some d"
  using digit_cases [OF assms]
  by (elim disjE) (simp_all add: digitVal_def digitChar_def digits_def)

lemma digitChar_not_sign:
  assumes "d < 10"
  shows "digitChar d \<noteq> CHR ''-'' \<and> digitChar d \<noteq> CHR ''+''"
  using digit_cases [OF assms]
  by (elim disjE) (simp_all add: digitChar_def digits_def)

lemma parseUintLoop_append:
  "parseUintLoop b c m n (xs @ ys) =
     (case parseUintLoop b c m n xs of
        (n', None) \<Rightarrow> parseUintLoop b c m n' ys
      | (v, Some e) \<Rightarrow> (v, Some e))"
  by (induction xs arbitrary: n) (auto simp: Let_def split: option.splits)

lemma formatBits_nonempty: "formatBits u \<noteq> []"
  by (subst formatBits.simps) simp

lemma hd_formatBits: "\<exists>d cs. d < 10 \<and> formatBits u = digitChar d # cs"
proof (induction u rule: formatBits.induct)
  case (1 u)
  show ?case
  proof (cases "u < 10")
    case True
    then show ?thesis by (subst formatBits.simps) auto
  next
    case False
    with 1 obtain d cs where "d < 10" "formatBits (u div 10) = digitChar d # cs" by auto
    with False show ?thesis by (subst formatBits.simps) auto
  qed
qed

text \<open>
  One round of the loop on the last digit of \<open>m\<close>: neither the cutoff test nor the two
  overflow tests fire, because \<open>m\<close> itself fits in 64 bits.
\<close>

lemma parseUintLoop_digit:
  assumes m: "m < 2 ^ 64"
  shows "parseUintLoop 10 1844674407370955162 18446744073709551615 (of_nat (m div 10))
           [digitChar (m mod 10)] = (of_nat m, None)"
proof -
  let ?n = "of_nat (m div 10) :: uint64"
  let ?d = "m mod 10"
  have d: "digitVal (digitChar ?d) = Some ?d"
    by (rule digitVal_digitChar) simp
  have un: "unat ?n = m div 10"
    using m by (simp add: unat_of_nat)
  have lt: "?n < 1844674407370955162"
    using m un by (simp add: word_less_nat_alt)
  have eq: "?n * 10 + of_nat ?d = (of_nat m :: uint64)"
  proof -
    have "m div 10 * 10 + m mod 10 = m" by simp
    then have "(of_nat m :: uint64) = of_nat (m div 10 * 10 + m mod 10)" by simp
    also have "\<dots> = ?n * 10 + of_nat ?d"
      by (simp only: of_nat_add of_nat_mult of_nat_numeral)
    finally show ?thesis by simp
  qed
  have un': "unat (?n * 10) = m div 10 * 10"
  proof -
    have "?n * 10 = (of_nat (m div 10 * 10) :: uint64)" by simp
    moreover have "m div 10 * 10 < 2 ^ 64" using m by simp
    moreover have "LENGTH(64) = 64" by simp
    ultimately show ?thesis by (simp only: unat_of_nat mod_less)
  qed
  have um: "unat (of_nat m :: uint64) = m"
    using m by (simp add: unat_of_nat)
  have ge: "\<not> (of_nat m :: uint64) < ?n * 10"
    using un' um by (simp add: word_less_nat_alt)
  have le: "\<not> 18446744073709551615 < (of_nat m :: uint64)"
    using um m by (simp add: word_less_nat_alt)
  show ?thesis
    using d lt ge le eq by (simp add: Let_def not_le)
qed

lemma parseUintLoop_formatBits:
  "m < 2 ^ 64 \<Longrightarrow>
     parseUintLoop 10 1844674407370955162 18446744073709551615 0 (formatBits m) = (of_nat m, None)"
proof (induction m rule: formatBits.induct)
  case (1 u)
  show ?case
  proof (cases "u < 10")
    case True
    then have "formatBits u = [digitChar (u mod 10)]"
      by (subst formatBits.simps) simp
    moreover from True have "u div 10 = 0" by simp
    ultimately show ?thesis using parseUintLoop_digit [OF "1.prems"] by simp
  next
    case False
    then have f: "formatBits u = formatBits (u div 10) @ [digitChar (u mod 10)]"
      by (subst formatBits.simps) simp
    have "u div 10 < 2 ^ 64" using "1.prems" by simp
    with "1.IH" False
    have "parseUintLoop 10 1844674407370955162 18446744073709551615 0 (formatBits (u div 10))
            = (of_nat (u div 10), None)"
      by simp
    with parseUintLoop_digit [OF "1.prems"] show ?thesis
      by (simp add: f parseUintLoop_append)
  qed
qed

lemma ParseUint_formatBits:
  assumes "m < 2 ^ 64"
  shows "ParseUint (formatBits m) 10 0 = (of_nat m, None)"
proof -
  have "(maxUint64 div of_nat 10 + 1 :: uint64) = 1844674407370955162"
    by (simp add: maxUint64_def)
  moreover have "(push_bit 64 1 - 1 :: uint64) = 18446744073709551615"
    by simp
  ultimately show ?thesis
    using parseUintLoop_formatBits [OF assms]
    by (simp add: ParseUint_def formatBits_nonempty IntSize_def)
qed

lemma unat_lt_64: "unat (v :: uint64) < 2 ^ 64"
  using unsigned_less [of v, where 'a = nat] by simp

lemma ParseUint_formatBits_unat:
  "ParseUint (formatBits (unat (v :: uint64))) 10 0 = (v, None)"
  using ParseUint_formatBits [OF unat_lt_64 [of v]] by simp

text \<open>A negative \<open>int64\<close> is a word from \<open>2^63\<close> on, and its negation is at most \<open>2^63\<close>.\<close>

lemma int_shift_neg:
  fixes k :: int
  assumes "0 \<le> k" "k < 18446744073709551616"
  shows "(k + 9223372036854775808) mod 18446744073709551616 - 9223372036854775808 < 0
          \<longleftrightarrow> 9223372036854775808 \<le> k"
proof (cases "k < 9223372036854775808")
  case True
  with assms have "(k + 9223372036854775808) mod 18446744073709551616 = k + 9223372036854775808"
    by simp
  with True assms show ?thesis by simp
next
  case False
  with assms have "(k + 9223372036854775808) mod 18446744073709551616 = k - 9223372036854775808"
    by (simp add: mod_pos_pos_trivial flip: minus_mod_self2 [of "k + 9223372036854775808"])
  with False assms show ?thesis by simp
qed

lemma sless_zero_iff: "(v :: int64) <s 0 \<longleftrightarrow> 9223372036854775808 \<le> v"
proof -
  have "v <s 0 \<longleftrightarrow> sint v < 0"
    by (simp add: word_sless_alt)
  also have "\<dots> \<longleftrightarrow>
      (uint v + 9223372036854775808) mod 18446744073709551616 - 9223372036854775808 < 0"
    by (simp add: sint_uint signed_take_bit_eq_take_bit_shift take_bit_eq_mod)
  also have "\<dots> \<longleftrightarrow> 9223372036854775808 \<le> uint v"
    using uint_lt2p [of v] by (intro int_shift_neg) simp_all
  also have "\<dots> \<longleftrightarrow> 9223372036854775808 \<le> v"
    by (simp add: word_le_def)
  finally show ?thesis .
qed

lemma neg_le_cutoff:
  assumes "(9223372036854775808 :: int64) \<le> v"
  shows "\<not> (9223372036854775808 :: int64) < - v"
proof -
  have v: "9223372036854775808 \<le> uint v"
    using assms by (simp add: word_le_def)
  have b: "uint v < 18446744073709551616"
    using uint_lt2p [of v] by simp
  have "uint (- v) = (- uint v) mod 18446744073709551616"
    by (simp add: uint_word_ariths)
  also have "\<dots> = 18446744073709551616 - uint v"
    using v b by (simp add: zmod_zminus1_eq_if)
  finally have "uint (- v) \<le> 9223372036854775808"
    using v by simp
  then show ?thesis
    by (simp add: word_less_def)
qed

lemma ParseInt_FormatInt: "ParseInt (FormatInt v) 10 0 = (v, None)"
proof (cases "v <s 0")
  case True
  then have f: "FormatInt v = CHR ''-'' # formatBits (unat (- v))"
    by (simp add: FormatInt_def)
  from True have "\<not> (9223372036854775808 :: int64) < - v"
    by (simp add: sless_zero_iff neg_le_cutoff)
  then show ?thesis
    by (simp add: f ParseInt_def ParseUint_formatBits_unat IntSize_def)
next
  case False
  then have f: "FormatInt v = formatBits (unat v)"
    by (simp add: FormatInt_def)
  obtain d cs where d: "d < 10" and cs: "formatBits (unat v) = digitChar d # cs"
    using hd_formatBits by blast
  from d have sign: "digitChar d \<noteq> CHR ''-''" "digitChar d \<noteq> CHR ''+''"
    by (simp_all add: digitChar_not_sign)
  from False have small: "\<not> (9223372036854775808 :: int64) \<le> v"
    by (simp add: sless_zero_iff)
  have "ParseUint (digitChar d # cs) 10 0 = (v, None)"
    using ParseUint_formatBits_unat [of v] by (simp add: cs)
  with sign small show ?thesis
    by (simp add: f cs ParseInt_def IntSize_def)
qed

section \<open>What the server answers on each route\<close>

lemma parsePattern_root: "parsePattern ''/'' = \<lparr>pat_method = [], pat_path = ''/''\<rparr>"
  by (simp add: parsePattern_def isBlank_def)

lemma parsePattern_GET:
  "parsePattern ''GET /timestamp'' = \<lparr>pat_method = ''GET'', pat_path = ''/timestamp''\<rparr>"
  by (simp add: parsePattern_def isBlank_def)

lemma parsePattern_POST:
  "parsePattern ''POST /timestamp'' = \<lparr>pat_method = ''POST'', pat_path = ''/timestamp''\<rparr>"
  by (simp add: parsePattern_def isBlank_def)

lemma mux_regs:
  "NewTimestampServer store =
     [(\<lparr>pat_method = [], pat_path = ''/''\<rparr>, notFoundHandler store),
      (\<lparr>pat_method = ''GET'', pat_path = ''/timestamp''\<rparr>, getTimestamp store),
      (\<lparr>pat_method = ''POST'', pat_path = ''/timestamp''\<rparr>, storeTimestamp store)]"
  by (simp add: NewTimestampServer_def HandleFunc_def parsePattern_root parsePattern_GET
      parsePattern_POST)

lemma match_GET:
  "matchMethodAndPath (NewTimestampServer store) ''GET'' ''/timestamp'' =
     Some (\<lparr>pat_method = ''GET'', pat_path = ''/timestamp''\<rparr>, getTimestamp store)"
  by (simp add: mux_regs matchMethodAndPath_def matchPath_def isPrefixPattern_def)

lemma match_HEAD:
  "matchMethodAndPath (NewTimestampServer store) ''HEAD'' ''/timestamp'' =
     Some (\<lparr>pat_method = ''GET'', pat_path = ''/timestamp''\<rparr>, getTimestamp store)"
  by (simp add: mux_regs matchMethodAndPath_def matchPath_def isPrefixPattern_def)

lemma match_POST:
  "matchMethodAndPath (NewTimestampServer store) ''POST'' ''/timestamp'' =
     Some (\<lparr>pat_method = ''POST'', pat_path = ''/timestamp''\<rparr>, storeTimestamp store)"
  by (simp add: mux_regs matchMethodAndPath_def matchPath_def isPrefixPattern_def)

lemma match_fallback:
  assumes "rooted p"
    and "\<not> (p = ''/timestamp'' \<and> (m = ''GET'' \<or> m = ''HEAD'' \<or> m = ''POST''))"
  shows "matchMethodAndPath (NewTimestampServer store) m p =
     Some (\<lparr>pat_method = [], pat_path = ''/''\<rparr>, notFoundHandler store)"
proof -
  obtain q where p: "p = CHR ''/'' # q"
    using assms(1) by (cases p) (auto simp: rooted_def)
  show ?thesis
    using assms(2)
    by (auto simp add: mux_regs matchMethodAndPath_def matchPath_def isPrefixPattern_def p)
qed

lemma serve_get:
  assumes "Method r = ''GET'' \<or> Method r = ''HEAD''" and "URLPath r = ''/timestamp''"
  shows "serve (NewTimestampServer store) r s =
     (\<lparr>StatusCode = (if GetTimestamp store s = 0 then 404 else 200),
       RespHeader = [''Content-Type'' \<mapsto> ''text/plain''],
       RespBody = (if Method r = ''HEAD'' then [] else FormatInt (GetTimestamp store s))\<rparr>, s)"
  using assms
  by (auto simp add: serve_def ServeHTTP_def match_GET match_HEAD getTimestamp_def Let_def writer_defs
      contentTypeTextPlain_def)

lemma serve_post:
  assumes "Method r = ''POST''" and "URLPath r = ''/timestamp''"
  shows "serve (NewTimestampServer store) r s =
     (case Body r of
        None \<Rightarrow> (\<lparr>StatusCode = 200, RespHeader = Map.empty, RespBody = []\<rparr>, s)
      | Some b \<Rightarrow>
          if readErr b \<noteq> None \<or> snd (ParseInt (content b) 10 0) \<noteq> None
          then (badRequest, s)
          else (\<lparr>StatusCode = 202, RespHeader = Map.empty, RespBody = []\<rparr>,
                StoreTimestamp store (fst (ParseInt (content b) 10 0)) s))"
  using assms
  by (auto simp add: serve_def ServeHTTP_def match_POST storeTimestamp_def ReadAll_def Let_def writer_defs
      badRequest_def split: option.splits prod.splits)

lemma ServeHTTP_fallback:
  assumes "rooted (URLPath r)"
    and "\<not> (URLPath r = ''/timestamp'' \<and>
            (Method r = ''GET'' \<or> Method r = ''HEAD'' \<or> Method r = ''POST''))"
  shows "ServeHTTP (NewTimestampServer store) w r s = notFoundHandler store w r s"
  by (simp add: ServeHTTP_def match_fallback [OF assms])

lemma serve_fallback:
  assumes "rooted (URLPath r)"
    and "\<not> (URLPath r = ''/timestamp'' \<and>
            (Method r = ''GET'' \<or> Method r = ''HEAD'' \<or> Method r = ''POST''))"
  shows "serve (NewTimestampServer store) r s =
     (\<lparr>StatusCode = 404, RespHeader = [''Content-Type'' \<mapsto> ''text/plain''],
       RespBody = (if Method r = ''HEAD'' then [] else ''404 - Page not found'')\<rparr>, s)"
  by (simp add: serve_def ServeHTTP_fallback [OF assms] notFoundHandler_def Let_def writer_defs
      contentTypeTextPlain_def notFoundMessage_def)

text \<open>A path that cleaning leaves as it is begins with a slash.\<close>

lemma rooted_cleanPath: "rooted (cleanPath p)"
  by (cases p) (auto simp add: cleanPath_def Clean_def rooted_def Let_def)

lemma clean_path_rooted:
  assumes "cleanPath p = p"
  shows "rooted p"
  using rooted_cleanPath [of p] by (simp add: assms)

section \<open>The claims\<close>

subsection \<open>C1: a value written by POST is read back by GET\<close>

text \<open>
  Claim C1, as amended. For every \<open>int64\<close> value \<open>v\<close> other than \<open>-62135596800\<close>: after
  a \<open>POST /timestamp\<close> whose body is the base-10 text of \<open>v\<close>, the body of the response
  to a \<open>GET /timestamp\<close> is the base-10 text of exactly \<open>v\<close>. The server runs on the
  in-memory store, from any state \<open>s\<close> of it.
\<close>

theorem post_then_get_round_trip:
  assumes "Method p = ''POST''" and "URLPath p = ''/timestamp''"
    and "Body p = Some (ReadCloser (FormatInt v) None)"
    and "Method g = ''GET''" and "URLPath g = ''/timestamp''"
    and "v \<noteq> - 62135596800"
  shows "RespBody (fst (serve (NewTimestampServer InMemoryTimestampStore) g
           (snd (serve (NewTimestampServer InMemoryTimestampStore) p s)))) = FormatInt v"
proof -
  have "snd (serve (NewTimestampServer InMemoryTimestampStore) p s)
          = StoreTimestamp InMemoryTimestampStore v s"
    using assms(1-3) by (simp add: serve_post ParseInt_FormatInt)
  with assms(4-6) show ?thesis
    by (simp add: serve_get InMemory_round_trip)
qed

text \<open>The theorem at \<open>v = 1700000000\<close>, on a fresh store, with the requests the tests build.\<close>

theorem post_then_get_round_trip_witness:
  "Method (newPostTimestampRequest 1700000000) = ''POST''
   \<and> URLPath (newPostTimestampRequest 1700000000) = ''/timestamp''
   \<and> Body (newPostTimestampRequest 1700000000) = Some (ReadCloser (FormatInt 1700000000) None)
   \<and> Method newGetTimestampRequest = ''GET''
   \<and> URLPath newGetTimestampRequest = ''/timestamp''
   \<and> (1700000000 :: int64) \<noteq> - 62135596800
   \<and> RespBody (fst (serve (NewTimestampServer InMemoryTimestampStore) newGetTimestampRequest
        (snd (serve (NewTimestampServer InMemoryTimestampStore)
               (newPostTimestampRequest 1700000000) NewInMemoryTimestampStore))))
       = ''1700000000''"
proof -
  have h1: "Method (newPostTimestampRequest 1700000000) = ''POST''"
    and h2: "URLPath (newPostTimestampRequest 1700000000) = ''/timestamp''"
    and h3: "Body (newPostTimestampRequest 1700000000) = Some (ReadCloser (FormatInt 1700000000) None)"
    and h4: "Method newGetTimestampRequest = ''GET''"
    and h5: "URLPath newGetTimestampRequest = ''/timestamp''"
    by (simp_all add: request_defs)
  have h6: "(1700000000 :: int64) \<noteq> - 62135596800"
    by simp
  have f: "FormatInt 1700000000 = ''1700000000''"
    by (simp add: format_defs)
  show ?thesis
    using h1 h2 h3 h4 h5 h6
      post_then_get_round_trip [OF h1 h2 h3 h4 h5 h6, of NewInMemoryTimestampStore]
    by (simp only: f simp_thms)
qed

text \<open>
  The claim as stated, for every \<open>int64\<close>, fails at \<open>v = -62135596800\<close>: the POST is
  accepted, and the GET that follows answers with the body \<open>0\<close>.
\<close>

theorem zero_time_does_not_round_trip:
  "RespBody (fst (serve (NewTimestampServer InMemoryTimestampStore) newGetTimestampRequest
      (snd (serve (NewTimestampServer InMemoryTimestampStore)
             (newPostTimestampRequest (- 62135596800)) NewInMemoryTimestampStore)))) = ''0''
   \<and> FormatInt (- 62135596800) = ''-62135596800''
   \<and> StatusCode (fst (serve (NewTimestampServer InMemoryTimestampStore)
             (newPostTimestampRequest (- 62135596800)) NewInMemoryTimestampStore)) = 202"
proof -
  have "serve (NewTimestampServer InMemoryTimestampStore)
               (newPostTimestampRequest (- 62135596800)) NewInMemoryTimestampStore
          = (\<lparr>StatusCode = 202, RespHeader = Map.empty, RespBody = []\<rparr>,
             StoreTimestamp InMemoryTimestampStore (- 62135596800) NewInMemoryTimestampStore)"
    by (simp add: serve_post ParseInt_FormatInt request_defs)
  moreover have "FormatInt 0 = ''0''"
    by (simp add: format_defs)
  moreover have "FormatInt (- 62135596800) = ''-62135596800''"
    by (simp add: format_defs)
  ultimately show ?thesis
    by (simp add: serve_get InMemory_round_trip request_defs)
qed

subsection \<open>C2: the Content-Type of the responses\<close>

text \<open>
  Claim C2, as amended. For every request whose path is clean (\<open>cleanPath\<close> leaves it as
  it is; the router answers every other path with a redirect and runs no handler): when
  the request is not \<open>POST /timestamp\<close>, the response carries the header
  \<open>Content-Type: text/plain\<close>; when it is \<open>POST /timestamp\<close>, the 400 response carries
  \<open>Content-Type: text/plain; charset=utf-8\<close> (set by \<open>http.Error\<close>), and every other
  response, 202 or 200, has an empty body and carries no Content-Type header.
\<close>

theorem content_type_of_responses:
  assumes "cleanPath (URLPath r) = URLPath r"
  shows "if Method r = ''POST'' \<and> URLPath r = ''/timestamp''
         then (if StatusCode (fst (serve (NewTimestampServer store) r s)) = 400
               then RespHeader (fst (serve (NewTimestampServer store) r s)) ''Content-Type''
                      = Some ''text/plain; charset=utf-8''
               else RespHeader (fst (serve (NewTimestampServer store) r s)) ''Content-Type'' = None
                    \<and> RespBody (fst (serve (NewTimestampServer store) r s)) = [])
         else RespHeader (fst (serve (NewTimestampServer store) r s)) ''Content-Type''
                = Some ''text/plain''"
proof (cases "Method r = ''POST'' \<and> URLPath r = ''/timestamp''")
  case True
  then show ?thesis
    by (simp add: serve_post badRequest_def split: option.splits)
next
  case False
  show ?thesis
  proof (cases "URLPath r = ''/timestamp'' \<and> (Method r = ''GET'' \<or> Method r = ''HEAD'')")
    case True
    with False show ?thesis by (simp add: serve_get)
  next
    case other: False
    with False have nf: "\<not> (URLPath r = ''/timestamp'' \<and>
        (Method r = ''GET'' \<or> Method r = ''HEAD'' \<or> Method r = ''POST''))"
      by auto
    from False show ?thesis
      by (simp add: serve_fallback [OF clean_path_rooted [OF assms] nf])
  qed
qed

text \<open>
  The theorem on a fresh in-memory store at the three kinds of request: a \<open>GET /timestamp\<close>,
  a \<open>POST /timestamp\<close> with the body \<open>abc\<close>, and one with the body \<open>1700000000\<close>.
\<close>

theorem content_type_of_responses_witness:
  "cleanPath (URLPath newGetTimestampRequest) = URLPath newGetTimestampRequest
   \<and> cleanPath (URLPath (postRequest ''abc'')) = URLPath (postRequest ''abc'')
   \<and> cleanPath (URLPath (newPostTimestampRequest 1700000000))
       = URLPath (newPostTimestampRequest 1700000000)
   \<and> RespHeader (fst (serve (NewTimestampServer InMemoryTimestampStore) newGetTimestampRequest
        NewInMemoryTimestampStore)) ''Content-Type'' = Some ''text/plain''
   \<and> RespHeader (fst (serve (NewTimestampServer InMemoryTimestampStore) (postRequest ''abc'')
        NewInMemoryTimestampStore)) ''Content-Type'' = Some ''text/plain; charset=utf-8''
   \<and> RespHeader (fst (serve (NewTimestampServer InMemoryTimestampStore)
        (newPostTimestampRequest 1700000000) NewInMemoryTimestampStore)) ''Content-Type'' = None
   \<and> RespBody (fst (serve (NewTimestampServer InMemoryTimestampStore)
        (newPostTimestampRequest 1700000000) NewInMemoryTimestampStore)) = []"
proof -
  have g: "cleanPath (URLPath newGetTimestampRequest) = URLPath newGetTimestampRequest"
    and a: "cleanPath (URLPath (postRequest ''abc'')) = URLPath (postRequest ''abc'')"
    and t: "cleanPath (URLPath (newPostTimestampRequest 1700000000))
            = URLPath (newPostTimestampRequest 1700000000)"
    by (simp_all add: request_defs cleanPath_def Clean_def)
  have gm: "\<not> (Method newGetTimestampRequest = ''POST'' \<and> URLPath newGetTimestampRequest = ''/timestamp'')"
    and am: "Method (postRequest ''abc'') = ''POST'' \<and> URLPath (postRequest ''abc'') = ''/timestamp''"
    and tm: "Method (newPostTimestampRequest 1700000000) = ''POST''
             \<and> URLPath (newPostTimestampRequest 1700000000) = ''/timestamp''"
    by (simp_all add: request_defs)
  have "snd (ParseInt ''abc'' 10 0) \<noteq> None"
    by (simp add: parse_defs)
  then have as: "StatusCode (fst (serve (NewTimestampServer InMemoryTimestampStore)
      (postRequest ''abc'') NewInMemoryTimestampStore)) = 400"
    by (simp add: serve_post badRequest_def postRequest_def)
  have ts: "StatusCode (fst (serve (NewTimestampServer InMemoryTimestampStore)
      (newPostTimestampRequest 1700000000) NewInMemoryTimestampStore)) \<noteq> 400"
    by (simp add: serve_post ParseInt_FormatInt request_defs)
  show ?thesis
    using g a t
      content_type_of_responses [OF g, of InMemoryTimestampStore NewInMemoryTimestampStore]
      content_type_of_responses [OF a, of InMemoryTimestampStore NewInMemoryTimestampStore]
      content_type_of_responses [OF t, of InMemoryTimestampStore NewInMemoryTimestampStore]
    by (simp only: gm am tm as ts if_True if_False simp_thms)
qed

text \<open>
  The claim as stated, for every request, fails at a \<open>POST /timestamp\<close> with the body
  \<open>1700000000\<close>: the 202 response carries no Content-Type header.
\<close>

theorem accepted_post_has_no_content_type:
  "RespHeader (fst (serve (NewTimestampServer InMemoryTimestampStore)
      (newPostTimestampRequest 1700000000) NewInMemoryTimestampStore)) ''Content-Type'' = None
   \<and> StatusCode (fst (serve (NewTimestampServer InMemoryTimestampStore)
      (newPostTimestampRequest 1700000000) NewInMemoryTimestampStore)) = 202"
  by (simp add: serve_post ParseInt_FormatInt request_defs)

subsection \<open>C3: a body that does not parse is answered with 400\<close>

text \<open>
  Claim C3, as amended. For every \<open>POST /timestamp\<close> whose body is present and does not
  parse as a base-10 signed 64-bit integer (the empty body, text that is not a number and a
  number out of the \<open>int64\<close> range are such bodies), the response has status 400 and its
  body is \<open>Invalid request body\<close> followed by one newline, which \<open>http.Error\<close> appends.
\<close>

theorem unparsable_body_is_bad_request:
  assumes "Method r = ''POST''" and "URLPath r = ''/timestamp''"
    and "Body r = Some b"
    and "snd (ParseInt (content b) 10 0) \<noteq> None"
  shows "StatusCode (fst (serve (NewTimestampServer store) r s)) = 400
         \<and> RespBody (fst (serve (NewTimestampServer store) r s))
             = ''Invalid request body'' @ [newline]"
  using assms by (simp add: serve_post badRequest_def)

text \<open>
  The theorem at the body \<open>abc\<close>; the empty body and \<open>9223372036854775808\<close>, one more
  than the greatest \<open>int64\<close>, do not parse either.
\<close>

theorem unparsable_body_is_bad_request_witness:
  "Method (postRequest ''abc'') = ''POST'' \<and> URLPath (postRequest ''abc'') = ''/timestamp''
   \<and> Body (postRequest ''abc'') = Some (ReadCloser ''abc'' None)
   \<and> snd (ParseInt (content (ReadCloser ''abc'' None)) 10 0) \<noteq> None
   \<and> snd (ParseInt [] 10 0) \<noteq> None
   \<and> snd (ParseInt ''9223372036854775808'' 10 0) \<noteq> None
   \<and> StatusCode (fst (serve (NewTimestampServer InMemoryTimestampStore) (postRequest ''abc'')
        NewInMemoryTimestampStore)) = 400
   \<and> RespBody (fst (serve (NewTimestampServer InMemoryTimestampStore) (postRequest ''abc'')
        NewInMemoryTimestampStore)) = ''Invalid request body'' @ [newline]"
proof -
  have h1: "Method (postRequest ''abc'') = ''POST''"
    and h2: "URLPath (postRequest ''abc'') = ''/timestamp''"
    and h3: "Body (postRequest ''abc'') = Some (ReadCloser ''abc'' None)"
    by (simp_all add: postRequest_def)
  have h4: "snd (ParseInt (content (ReadCloser ''abc'' None)) 10 0) \<noteq> None"
    by (simp add: parse_defs)
  have e: "snd (ParseInt [] 10 0) \<noteq> None"
    by (simp add: parse_defs)
  have o: "snd (ParseInt ''9223372036854775808'' 10 0) \<noteq> None"
    by (simp add: parse_defs)
  show ?thesis
    using h1 h2 h3 h4 e o
      unparsable_body_is_bad_request [OF h1 h2 h3 h4, of InMemoryTimestampStore NewInMemoryTimestampStore]
    by (simp only: simp_thms)
qed

text \<open>
  The claim as stated, with the body exactly \<open>Invalid request body\<close>, fails at the body
  \<open>abc\<close>: the response body has the newline after the message.
\<close>

theorem bad_request_body_ends_with_newline:
  "snd (ParseInt ''abc'' 10 0) \<noteq> None
   \<and> RespBody (fst (serve (NewTimestampServer InMemoryTimestampStore) (postRequest ''abc'')
        NewInMemoryTimestampStore)) \<noteq> ''Invalid request body''"
proof -
  have "snd (ParseInt ''abc'' 10 0) \<noteq> None"
    by (simp add: parse_defs)
  then show ?thesis
    by (simp add: serve_post badRequest_def postRequest_def)
qed

subsection \<open>C4: a 400 response leaves the store as it was\<close>

text \<open>
  Claim C4. For every \<open>POST /timestamp\<close> that is answered with status 400, whether the
  read or the parse failed, the state of the store after the request is its state before
  it, for every implementation of the store: the error path does not call
  \<open>StoreTimestamp\<close>.
\<close>

theorem bad_request_keeps_store:
  assumes "Method r = ''POST''" and "URLPath r = ''/timestamp''"
    and "StatusCode (fst (serve (NewTimestampServer store) r s)) = 400"
  shows "snd (serve (NewTimestampServer store) r s) = s"
  using assms by (auto simp add: serve_post split: option.splits if_splits)

text \<open>
  The theorem at the body \<open>abc\<close> on the stub store, whose record of the calls of
  \<open>StoreTimestamp\<close> stays as it was.
\<close>

theorem bad_request_keeps_store_witness:
  "Method (postRequest ''abc'') = ''POST'' \<and> URLPath (postRequest ''abc'') = ''/timestamp''
   \<and> StatusCode (fst (serve (NewTimestampServer StubTimestampStore) (postRequest ''abc'')
        \<lparr>stub_timestamp = Unix 1700000000, storeCalls = [1700000000]\<rparr>)) = 400
   \<and> snd (serve (NewTimestampServer StubTimestampStore) (postRequest ''abc'')
        \<lparr>stub_timestamp = Unix 1700000000, storeCalls = [1700000000]\<rparr>)
       = \<lparr>stub_timestamp = Unix 1700000000, storeCalls = [1700000000]\<rparr>"
proof -
  have h1: "Method (postRequest ''abc'') = ''POST''"
    and h2: "URLPath (postRequest ''abc'') = ''/timestamp''"
    by (simp_all add: postRequest_def)
  have p: "snd (ParseInt ''abc'' 10 0) \<noteq> None"
    by (simp add: parse_defs)
  have h3: "StatusCode (fst (serve (NewTimestampServer StubTimestampStore) (postRequest ''abc'')
        \<lparr>stub_timestamp = Unix 1700000000, storeCalls = [1700000000]\<rparr>)) = 400"
    using p by (simp add: serve_post badRequest_def postRequest_def)
  show ?thesis
    using h1 h2 h3 bad_request_keeps_store [OF h1 h2 h3]
    by (simp only: simp_thms)
qed

subsection \<open>C5: a POST with no body at all\<close>

text \<open>
  Claim C5. For every \<open>POST /timestamp\<close> whose body is \<open>nil\<close>, the handler leaves the
  response writer and the store untouched, so the response is the default 200 with no
  header and no body; the same request with a body that is present and empty is answered
  with 400.
\<close>

theorem nil_body_is_ignored:
  assumes "Method r = ''POST''" and "URLPath r = ''/timestamp''"
  shows "serve (NewTimestampServer store) (r\<lparr>Body := None\<rparr>) s
           = (\<lparr>StatusCode = 200, RespHeader = Map.empty, RespBody = []\<rparr>, s)
         \<and> fst (storeTimestamp store w (r\<lparr>Body := None\<rparr>) s) = w
         \<and> StatusCode (fst (serve (NewTimestampServer store)
                (r\<lparr>Body := Some (ReadCloser [] e)\<rparr>) s)) = 400"
proof -
  have "snd (ParseInt [] 10 0) \<noteq> None"
    by (simp add: ParseInt_def)
  with assms show ?thesis
    by (simp add: serve_post badRequest_def storeTimestamp_def)
qed

text \<open>The theorem on the stub store, after one earlier call of \<open>StoreTimestamp\<close>.\<close>

theorem nil_body_is_ignored_witness:
  "Method (postRequest ''7'') = ''POST'' \<and> URLPath (postRequest ''7'') = ''/timestamp''
   \<and> serve (NewTimestampServer StubTimestampStore) ((postRequest ''7'')\<lparr>Body := None\<rparr>)
         \<lparr>stub_timestamp = Unix 1700000000, storeCalls = [1700000000]\<rparr>
       = (\<lparr>StatusCode = 200, RespHeader = Map.empty, RespBody = []\<rparr>,
          \<lparr>stub_timestamp = Unix 1700000000, storeCalls = [1700000000]\<rparr>)
   \<and> StatusCode (fst (serve (NewTimestampServer StubTimestampStore)
         ((postRequest ''7'')\<lparr>Body := Some (ReadCloser [] None)\<rparr>)
         \<lparr>stub_timestamp = Unix 1700000000, storeCalls = [1700000000]\<rparr>)) = 400"
proof -
  have h1: "Method (postRequest ''7'') = ''POST''"
    and h2: "URLPath (postRequest ''7'') = ''/timestamp''"
    by (simp_all add: postRequest_def)
  show ?thesis
    using h1 h2 nil_body_is_ignored [OF h1 h2, of StubTimestampStore
        "\<lparr>stub_timestamp = Unix 1700000000, storeCalls = [1700000000]\<rparr>" NewResponseWriter None]
    by (simp only: simp_thms)
qed

subsection \<open>C6: GET on a store that reports 0\<close>

text \<open>
  Claim C6. For every \<open>GET /timestamp\<close> made while the store reports 0, the response has
  status 404 and the body \<open>0\<close>; the handler sends the status 404 first and writes the
  body \<open>0\<close> after it.
\<close>

theorem get_on_unset_store:
  assumes "Method r = ''GET''" and "URLPath r = ''/timestamp''"
    and "GetTimestamp store s = 0"
  shows "StatusCode (fst (serve (NewTimestampServer store) r s)) = 404
         \<and> RespBody (fst (serve (NewTimestampServer store) r s)) = ''0''
         \<and> fst (getTimestamp store w r s)
             = Write ''0'' (WriteHeader StatusNotFound (Header_Set ''Content-Type'' contentTypeTextPlain w))"
proof -
  have "FormatInt 0 = ''0''"
    by (simp add: format_defs)
  with assms show ?thesis
    by (simp add: serve_get getTimestamp_def)
qed

text \<open>The theorem on a fresh in-memory store.\<close>

theorem get_on_unset_store_witness:
  "Method newGetTimestampRequest = ''GET'' \<and> URLPath newGetTimestampRequest = ''/timestamp''
   \<and> GetTimestamp InMemoryTimestampStore NewInMemoryTimestampStore = 0
   \<and> StatusCode (fst (serve (NewTimestampServer InMemoryTimestampStore) newGetTimestampRequest
        NewInMemoryTimestampStore)) = 404
   \<and> RespBody (fst (serve (NewTimestampServer InMemoryTimestampStore) newGetTimestampRequest
        NewInMemoryTimestampStore)) = ''0''"
proof -
  have h1: "Method newGetTimestampRequest = ''GET''"
    and h2: "URLPath newGetTimestampRequest = ''/timestamp''"
    by (simp_all add: request_defs)
  have h3: "GetTimestamp InMemoryTimestampStore NewInMemoryTimestampStore = 0"
    by (simp add: time_defs)
  show ?thesis
    using h1 h2 h3 get_on_unset_store [OF h1 h2 h3]
    by (simp only: simp_thms)
qed

subsection \<open>C7: a body that parses is stored\<close>

text \<open>
  Claim C7. For every \<open>POST /timestamp\<close> whose body is read and parses as the base-10
  signed integer \<open>v\<close>, the handler calls \<open>StoreTimestamp(v)\<close> on the store and the response
  has status 202 and an empty body.
\<close>

theorem parsed_body_is_stored:
  assumes "Method r = ''POST''" and "URLPath r = ''/timestamp''"
    and "Body r = Some b" and "readErr b = None"
    and "ParseInt (content b) 10 0 = (v, None)"
  shows "serve (NewTimestampServer store) r s
           = (\<lparr>StatusCode = 202, RespHeader = Map.empty, RespBody = []\<rparr>, StoreTimestamp store v s)"
  using assms by (simp add: serve_post)

text \<open>
  The theorem at the body \<open>1700000000\<close> on a fresh stub store, which records the one call
  \<open>StoreTimestamp(1700000000)\<close>.
\<close>

theorem parsed_body_is_stored_witness:
  "Method (postRequest ''1700000000'') = ''POST''
   \<and> URLPath (postRequest ''1700000000'') = ''/timestamp''
   \<and> Body (postRequest ''1700000000'') = Some (ReadCloser ''1700000000'' None)
   \<and> readErr (ReadCloser ''1700000000'' None) = None
   \<and> ParseInt (content (ReadCloser ''1700000000'' None)) 10 0 = (1700000000, None)
   \<and> serve (NewTimestampServer StubTimestampStore) (postRequest ''1700000000'')
        \<lparr>stub_timestamp = zeroTime, storeCalls = []\<rparr>
       = (\<lparr>StatusCode = 202, RespHeader = Map.empty, RespBody = []\<rparr>,
          \<lparr>stub_timestamp = Unix 1700000000, storeCalls = [1700000000]\<rparr>)"
proof -
  have h1: "Method (postRequest ''1700000000'') = ''POST''"
    and h2: "URLPath (postRequest ''1700000000'') = ''/timestamp''"
    and h3: "Body (postRequest ''1700000000'') = Some (ReadCloser ''1700000000'' None)"
    and h4: "readErr (ReadCloser ''1700000000'' None) = None"
    by (simp_all add: postRequest_def)
  have h5: "ParseInt (content (ReadCloser ''1700000000'' None)) 10 0 = (1700000000, None)"
    by (simp add: parse_defs)
  have st: "StoreTimestamp StubTimestampStore 1700000000 \<lparr>stub_timestamp = zeroTime, storeCalls = []\<rparr>
          = \<lparr>stub_timestamp = Unix 1700000000, storeCalls = [1700000000]\<rparr>"
    by (simp add: stub_defs)
  show ?thesis
    using h1 h2 h3 h4 h5
      parsed_body_is_stored [OF h1 h2 h3 h4 h5, of StubTimestampStore
        "\<lparr>stub_timestamp = zeroTime, storeCalls = []\<rparr>"]
    by (simp only: st simp_thms)
qed

subsection \<open>C8: every other request is answered by the fallback handler\<close>

text \<open>
  Claim C8, as amended. For every request whose path is clean (\<open>cleanPath\<close> leaves it as
  it is; the router answers every other path with a redirect and runs no handler) and
  whose method and path are not \<open>GET /timestamp\<close>, \<open>HEAD /timestamp\<close> or
  \<open>POST /timestamp\<close>: the response has status 404 and the header
  \<open>Content-Type: text/plain\<close>; the handler writes the body exactly
  \<open>404 - Page not found\<close>, and that is the body of the response, except that the response
  to a \<open>HEAD\<close> request has no body; the store is left as it was.
\<close>

theorem unrouted_request_is_not_found:
  assumes "cleanPath (URLPath r) = URLPath r"
    and "\<not> (URLPath r = ''/timestamp'' \<and>
            (Method r = ''GET'' \<or> Method r = ''HEAD'' \<or> Method r = ''POST''))"
  shows "StatusCode (fst (serve (NewTimestampServer store) r s)) = 404
         \<and> RespHeader (fst (serve (NewTimestampServer store) r s)) ''Content-Type''
             = Some ''text/plain''
         \<and> RespBody (fst (serve (NewTimestampServer store) r s))
             = (if Method r = ''HEAD'' then [] else ''404 - Page not found'')
         \<and> written (fst (ServeHTTP (NewTimestampServer store) NewResponseWriter r s))
             = ''404 - Page not found''
         \<and> snd (serve (NewTimestampServer store) r s) = s"
proof -
  have rt: "rooted (URLPath r)"
    using assms(1) by (rule clean_path_rooted)
  have "written (fst (ServeHTTP (NewTimestampServer store) NewResponseWriter r s))
          = ''404 - Page not found''"
    by (simp add: ServeHTTP_fallback [OF rt assms(2)] notFoundHandler_def Let_def writer_defs
        notFoundMessage_def)
  then show ?thesis
    by (simp add: serve_fallback [OF rt assms(2)])
qed

text \<open>The theorem at \<open>GET /nonexistent\<close> on a fresh in-memory store.\<close>

theorem unrouted_request_is_not_found_witness:
  "cleanPath (URLPath \<lparr>Method = ''GET'', URLPath = ''/nonexistent'', Body = None\<rparr>)
     = URLPath \<lparr>Method = ''GET'', URLPath = ''/nonexistent'', Body = None\<rparr>
   \<and> \<not> (URLPath \<lparr>Method = ''GET'', URLPath = ''/nonexistent'', Body = None\<rparr> = ''/timestamp'' \<and>
          (Method \<lparr>Method = ''GET'', URLPath = ''/nonexistent'', Body = None\<rparr> = ''GET''
           \<or> Method \<lparr>Method = ''GET'', URLPath = ''/nonexistent'', Body = None\<rparr> = ''HEAD''
           \<or> Method \<lparr>Method = ''GET'', URLPath = ''/nonexistent'', Body = None\<rparr> = ''POST''))
   \<and> StatusCode (fst (serve (NewTimestampServer InMemoryTimestampStore)
        \<lparr>Method = ''GET'', URLPath = ''/nonexistent'', Body = None\<rparr> NewInMemoryTimestampStore)) = 404
   \<and> RespBody (fst (serve (NewTimestampServer InMemoryTimestampStore)
        \<lparr>Method = ''GET'', URLPath = ''/nonexistent'', Body = None\<rparr> NewInMemoryTimestampStore))
       = ''404 - Page not found''
   \<and> RespHeader (fst (serve (NewTimestampServer InMemoryTimestampStore)
        \<lparr>Method = ''GET'', URLPath = ''/nonexistent'', Body = None\<rparr> NewInMemoryTimestampStore))
        ''Content-Type'' = Some ''text/plain''"
proof -
  let ?r = "\<lparr>Method = ''GET'', URLPath = ''/nonexistent'', Body = None\<rparr>"
  have h1: "cleanPath (URLPath ?r) = URLPath ?r"
    by (simp add: cleanPath_def Clean_def)
  have h2: "\<not> (URLPath ?r = ''/timestamp'' \<and>
            (Method ?r = ''GET'' \<or> Method ?r = ''HEAD'' \<or> Method ?r = ''POST''))"
    by simp
  have h3: "Method ?r \<noteq> ''HEAD''"
    by simp
  show ?thesis
    using h1 h2
      unrouted_request_is_not_found [OF h1 h2, of InMemoryTimestampStore NewInMemoryTimestampStore]
    by (simp only: h3 if_False simp_thms)
qed

text \<open>
  The claim as stated, for every request that is not \<open>GET /timestamp\<close> or
  \<open>POST /timestamp\<close>, fails at \<open>HEAD /timestamp\<close>: the pattern \<open>GET /timestamp\<close> matches
  \<open>HEAD\<close> requests too, and with 1700000000 in the store the handler answers 200. It
  fails at \<open>HEAD /nonexistent\<close> as well: the status is 404, and the response has no body.
\<close>

theorem head_timestamp_is_served:
  "\<not> (Method \<lparr>Method = ''HEAD'', URLPath = ''/timestamp'', Body = None\<rparr> = ''GET''
        \<and> URLPath \<lparr>Method = ''HEAD'', URLPath = ''/timestamp'', Body = None\<rparr> = ''/timestamp'')
   \<and> \<not> (Method \<lparr>Method = ''HEAD'', URLPath = ''/timestamp'', Body = None\<rparr> = ''POST''
        \<and> URLPath \<lparr>Method = ''HEAD'', URLPath = ''/timestamp'', Body = None\<rparr> = ''/timestamp'')
   \<and> StatusCode (fst (serve (NewTimestampServer InMemoryTimestampStore)
        \<lparr>Method = ''HEAD'', URLPath = ''/timestamp'', Body = None\<rparr> (Unix 1700000000))) = 200
   \<and> StatusCode (fst (serve (NewTimestampServer InMemoryTimestampStore)
        \<lparr>Method = ''HEAD'', URLPath = ''/nonexistent'', Body = None\<rparr> (Unix 1700000000))) = 404
   \<and> RespBody (fst (serve (NewTimestampServer InMemoryTimestampStore)
        \<lparr>Method = ''HEAD'', URLPath = ''/nonexistent'', Body = None\<rparr> (Unix 1700000000))) = []"
proof -
  have "GetTimestamp InMemoryTimestampStore (Unix 1700000000) = 1700000000"
    by (simp add: time_defs)
  moreover have "rooted (URLPath \<lparr>Method = ''HEAD'', URLPath = ''/nonexistent'', Body = None\<rparr>)"
    by (simp add: rooted_def)
  ultimately show ?thesis
    by (simp add: serve_get serve_fallback)
qed

subsection \<open>C9: the bootstrap client\<close>

text \<open>
  Claim C9. For every \<open>int64\<close> timestamp \<open>t\<close> and every implementation of the store,
  \<open>Client.Run(t)\<close> first stores \<open>t\<close>, then reads the store back and appends to its sink
  exactly the base-10 text of the value it read followed by one newline; it calls
  \<open>StoreTimestamp\<close> once, which on the stub store adds the one entry \<open>t\<close> to the record
  of calls.
\<close>

theorem Run_stores_then_prints:
  "Run store t (s, out)
     = (StoreTimestamp store t s,
        out @ FormatInt (GetTimestamp store (StoreTimestamp store t s)) @ [newline])
   \<and> storeCalls (fst (Run StubTimestampStore t (stub, out))) = storeCalls stub @ [t]"
  by (simp add: Run_def Fprintln_def Let_def stub_defs)

text \<open>The theorem at \<open>t = 1700000000\<close> on a fresh stub store and an empty sink.\<close>

theorem Run_stores_then_prints_witness:
  "Run StubTimestampStore 1700000000 (\<lparr>stub_timestamp = zeroTime, storeCalls = []\<rparr>, [])
     = (\<lparr>stub_timestamp = Unix 1700000000, storeCalls = [1700000000]\<rparr>, ''1700000000'' @ [newline])"
proof -
  have g: "GetTimestamp StubTimestampStore \<lparr>stub_timestamp = Unix 1700000000, storeCalls = [1700000000]\<rparr>
            = 1700000000"
    by (simp add: stub_defs time_defs)
  have st: "StoreTimestamp StubTimestampStore 1700000000 \<lparr>stub_timestamp = zeroTime, storeCalls = []\<rparr>
          = \<lparr>stub_timestamp = Unix 1700000000, storeCalls = [1700000000]\<rparr>"
    by (simp add: stub_defs)
  have f: "FormatInt 1700000000 = ''1700000000''"
    by (simp add: format_defs)
  show ?thesis
    using Run_stores_then_prints [of StubTimestampStore 1700000000
        "\<lparr>stub_timestamp = zeroTime, storeCalls = []\<rparr>" "[]"]
    by (simp only: st g f append_Nil simp_thms)
qed

subsection \<open>C10: the zero time\<close>

text \<open>
  Claim C10. On the in-memory store, \<open>StoreTimestamp(-62135596800)\<close> followed by
  \<open>GetTimestamp()\<close> returns 0 and not \<open>-62135596800\<close>, because \<open>time.Unix(-62135596800, 0)\<close>
  satisfies \<open>IsZero\<close>; it is the only \<open>int64\<close> whose stored time satisfies \<open>IsZero\<close>, and
  the only one that \<open>GetTimestamp\<close> does not return after it was stored.
\<close>

theorem zero_time_reads_as_unset:
  "GetTimestamp InMemoryTimestampStore (StoreTimestamp InMemoryTimestampStore (- 62135596800) s) = 0
   \<and> IsZero (Unix (- 62135596800))
   \<and> (\<forall>v. IsZero (Unix v) = (v = - 62135596800))
   \<and> (\<forall>v s'. (GetTimestamp InMemoryTimestampStore (StoreTimestamp InMemoryTimestampStore v s') = v)
               = (v \<noteq> - 62135596800))"
  by (simp add: InMemory_round_trip Unix_IsZero_iff)

text \<open>The theorem on a fresh in-memory store.\<close>

theorem zero_time_reads_as_unset_witness:
  "GetTimestamp InMemoryTimestampStore
     (StoreTimestamp InMemoryTimestampStore (- 62135596800) NewInMemoryTimestampStore) = 0
   \<and> IsZero (Unix (- 62135596800))"
  using zero_time_reads_as_unset [of NewInMemoryTimestampStore]
  by (simp only: simp_thms)

end
